theory Spec2Isabelle
  imports Complex_Main
begin

section \<open>Errors and numpy-style helpers\<close>

text \<open>
  The messages of the assertions raised by the multi-agent environment's constructor.
\<close>

datatype assert_msg =
    AgentHzMsg int int
  | RenderModeMsg
  | AngleReprMsg string
  | StartPosShapeMsg "nat list"

text \<open>Every raise of the source is a value of the result.\<close>

datatype py_error =
    ValueError
  | KeyError
  | IndexError
  | TypeError
  | ZeroDivisionError
  | AttributeError
  | UserWarning
  | AssertionError assert_msg

definition ebind :: "py_error + 'a \<Rightarrow> ('a \<Rightarrow> py_error + 'b) \<Rightarrow> py_error + 'b" where
  "ebind m f = (case m of Inl e \<Rightarrow> Inl e | Inr x \<Rightarrow> f x)"

text \<open>
  \<open>xs[i]\<close> as Python and numpy read it: an index from 0 to len - 1 counts from the
  front, an index from -len to -1 counts from the back, any other index raises.
\<close>

definition py_idx :: "'a list \<Rightarrow> int \<Rightarrow> py_error + 'a" where
  "py_idx xs i =
     (if 0 \<le> i \<and> i < int (length xs) then Inr (xs ! nat i)
      else if i < 0 \<and> - int (length xs) \<le> i then Inr (xs ! nat (int (length xs) + i))
      else Inl IndexError)"

text \<open>
  Numpy broadcasting of a 1-d vector to a 1-d target of length \<open>n\<close>, as an in-place
  operation or a row assignment does it: equal lengths, or a single element repeated.
\<close>

definition np_bcast :: "nat \<Rightarrow> real list \<Rightarrow> py_error + real list" where
  "np_bcast n v =
     (if length v = n then Inr v
      else if length v = 1 then Inr (replicate n (hd v))
      else Inl ValueError)"

text \<open>\<open>np.clip(x, 0, 1)\<close>.\<close>

definition clip01 :: "real \<Rightarrow> real" where
  "clip01 x = min 1 (max 0 x)"

text \<open>\<open>np.matmul(M, v)\<close> of a matrix (a list of rows) and a 1-d vector.\<close>

definition matmul :: "real list list \<Rightarrow> real list \<Rightarrow> py_error + real list" where
  "matmul M v =
     (if list_all (\<lambda>row. length row = length v) M
      then Inr (map (\<lambda>row. sum_list (map2 (*) row v)) M)
      else Inl ValueError)"

section \<open>The vehicle: \<open>src/PyFlyt/core/drone.py\<close>\<close>

subsection \<open>The PID controller\<close>

text \<open>
  Modelled from the spec: the class \<open>PID\<close> of \<open>PyFlyt.core.PID\<close>, which
  \<open>drone.py\<close> imports and the sources do not hold. Section 4.1 of the specification
  is its contract: \<open>step(measured, target)\<close> computes error = target - measured,
  accumulates an integral term over the fixed timestep, computes a derivative term from
  consecutive errors, combines kp*error + ki*integral + kd*derivative, clamps each output
  dimension to the limit and returns it; \<open>reset()\<close> zeroes integral and
  previous-error state; every dimension is controlled on its own. A scalar controller
  (the height controllers) is a controller of dimension one.
\<close>

record PID =
  pid_kp :: "real list"
  pid_ki :: "real list"
  pid_kd :: "real list"
  pid_limits :: "real list"
  pid_period :: real
  pid_integral :: "real list"
  pid_prev_error :: "real list"

text \<open>
  Modelled from the spec: the constructor of \<open>PID\<close> (gains, limit, timestep), absent
  from the sources like the class; a new controller starts with zero integrator and zero
  previous error of the dimension of its gains.
\<close>

definition PID_init :: "real list \<Rightarrow> real list \<Rightarrow> real list \<Rightarrow> real list \<Rightarrow> real \<Rightarrow> PID" where
  "PID_init kp ki kd lims period =
     \<lparr>pid_kp = kp, pid_ki = ki, pid_kd = kd, pid_limits = lims, pid_period = period,
      pid_integral = map (\<lambda>_. 0) kp, pid_prev_error = map (\<lambda>_. 0) kp\<rparr>"

text \<open>
  Modelled from the spec: \<open>PID.reset\<close>, absent from the sources; it "zeroes integral
  and previous-error state".
\<close>

definition PID_reset :: "PID \<Rightarrow> PID" where
  "PID_reset c =
     c\<lparr>pid_integral := map (\<lambda>_. 0) (pid_integral c),
       pid_prev_error := map (\<lambda>_. 0) (pid_prev_error c)\<rparr>"

text \<open>
  Modelled from the spec: \<open>PID.step\<close>, absent from the sources; the error, the
  integral over the timestep, the derivative from consecutive errors, the weighted sum and
  the clamp to the limit, dimension by dimension. It returns the controller after the step
  and the output.
\<close>

definition PID_step :: "PID \<Rightarrow> real list \<Rightarrow> real list \<Rightarrow> PID \<times> real list" where
  "PID_step c measured target =
     (let err = map2 (-) target measured;
          integ = map2 (\<lambda>i e. i + e * pid_period c) (pid_integral c) err;
          deriv = map2 (\<lambda>e p. (e - p) / pid_period c) err (pid_prev_error c);
          raw = map2 (+) (map2 (+) (map2 (*) (pid_kp c) err) (map2 (*) (pid_ki c) integ))
                  (map2 (*) (pid_kd c) deriv);
          out = map2 (\<lambda>l x. min l (max (- l) x)) (pid_limits c) raw
      in (c\<lparr>pid_integral := integ, pid_prev_error := err\<rparr>, out))"

text \<open>A controller with fresh state: integrator and previous error are zero.\<close>

definition fresh :: "PID \<Rightarrow> bool" where
  "fresh c = (list_all (\<lambda>x. x = 0) (pid_integral c) \<and> list_all (\<lambda>x. x = 0) (pid_prev_error c))"

subsection \<open>The vehicle's record and its construction (\<open>Drone.__init__\<close>, \<open>Drone.reset\<close>)\<close>

text \<open>
  The parameter file gives, for each of the six controller stages, the gains and the limit;
  a missing entry of the file is a \<open>KeyError\<close> of the parser, excluded here by the type.
\<close>

record gains =
  g_kp :: "real list"
  g_ki :: "real list"
  g_kd :: "real list"
  g_lim :: "real list"

record drone_params =
  thrust_to_weight :: real
  thrust_const :: real
  ang_vel :: gains
  ang_pos :: gains
  lin_vel :: gains
  lin_pos :: gains
  z_pos :: gains
  z_vel :: gains

text \<open>
  The fields of \<open>self\<close> that the flight modes and the controllers read or write.
  \<open>state\<close> is the 4 by 3 matrix with the rows angular velocity, angular position,
  linear velocity, linear position. The pulse widths \<open>self.pwm\<close>, the motor speeds
  \<open>self.rpm\<close> and the constants of the motor model (\<open>physics_hz\<close>,
  \<open>motor_tau\<close>, \<open>max_rpm\<close>) are results and operands of the float64
  arithmetic of \<open>cmd2pwm\<close> and \<open>pwm2rpm\<close>; that arithmetic is not modelled,
  and the record does not hold them.
\<close>

record drone =
  ctrl_period :: real
  Kp_ang_vel :: "real list"
  Ki_ang_vel :: "real list"
  Kd_ang_vel :: "real list"
  lim_ang_vel :: "real list"
  Kp_ang_pos :: "real list"
  Ki_ang_pos :: "real list"
  Kd_ang_pos :: "real list"
  lim_ang_pos :: "real list"
  Kp_lin_vel :: "real list"
  Ki_lin_vel :: "real list"
  Kd_lin_vel :: "real list"
  lim_lin_vel :: "real list"
  Kp_lin_pos :: "real list"
  Ki_lin_pos :: "real list"
  Kd_lin_pos :: "real list"
  lim_lin_pos :: "real list"
  z_PIDs :: "PID list"
  PIDs :: "PID list"
  mode :: int
  state :: "real list list"
  setpoint :: "real list"

text \<open>
  \<open>update_state\<close> asks the physics engine for pose and velocity, rotates the velocities
  into the local frame and stacks four 3-vectors. The engine and the rotation are outside
  the model: the four vectors (angular velocity, Euler angles, linear velocity, position)
  are the argument.
\<close>

type_synonym vec3 = "real \<times> real \<times> real"

definition vec3_list :: "vec3 \<Rightarrow> real list" where
  "vec3_list v = (case v of (a, b, c) \<Rightarrow> [a, b, c])"

definition update_state :: "vec3 \<times> vec3 \<times> vec3 \<times> vec3 \<Rightarrow> drone \<Rightarrow> drone" where
  "update_state rd d =
     (case rd of (av, ap, lv, lp) \<Rightarrow>
        d\<lparr>state := [vec3_list av, vec3_list ap, vec3_list lv, vec3_list lp]\<rparr>)"

definition state_ok :: "real list list \<Rightarrow> bool" where
  "state_ok st = (length st = 4 \<and> list_all (\<lambda>r. length r = 3) st)"

subsection \<open>Flight modes (\<open>Drone.set_mode\<close>)\<close>

text \<open>Lines 248 to 262: the setpoint preset on a mode change.\<close>

definition preset_setpoint :: "int \<Rightarrow> real list list \<Rightarrow> py_error + real list" where
  "preset_setpoint m st =
     (if m = 0 then Inr [0, 0, 0, -1]
      else if m \<in> set [1, 5, 6] then Inr [0, 0, 0, 0]
      else if m = 7 then
        ebind (py_idx st (-1)) (\<lambda>lp.
        ebind (py_idx st 1) (\<lambda>ap.
        ebind (py_idx ap (-1)) (\<lambda>yaw.
          Inr (take 2 lp @ [yaw]))))
      else
        ebind (py_idx st (-1)) (\<lambda>lp.
        ebind (py_idx lp (-1)) (\<lambda>z.
          Inr ([0, 0, 0, 0][3 := z]))))"

text \<open>
  Lines 264 to 343: the cascade a mode instantiates. No branch matches a mode outside
  0 to 7, and \<open>self.PIDs\<close> stays what it was.
\<close>

definition instantiate_PIDs :: "int \<Rightarrow> drone \<Rightarrow> PID list" where
  "instantiate_PIDs m d =
     (let ang_vel_PID = PID_init (Kp_ang_vel d) (Ki_ang_vel d) (Kd_ang_vel d) (lim_ang_vel d)
                          (ctrl_period d);
          ang_pos_PID = PID_init (Kp_ang_pos d) (Ki_ang_pos d) (Kd_ang_pos d) (lim_ang_pos d)
                          (ctrl_period d);
          ang_pos_PID2 = PID_init (take 2 (Kp_ang_pos d)) (take 2 (Ki_ang_pos d))
                          (take 2 (Kd_ang_pos d)) (take 2 (lim_ang_pos d)) (ctrl_period d);
          lin_vel_PID = PID_init (Kp_lin_vel d) (Ki_lin_vel d) (Kd_lin_vel d) (lim_lin_vel d)
                          (ctrl_period d);
          lin_pos_PID = PID_init (Kp_lin_pos d) (Ki_lin_pos d) (Kd_lin_pos d) (lim_lin_pos d)
                          (ctrl_period d)
      in if m = 0 \<or> m = 2 then [ang_vel_PID]
         else if m = 1 \<or> m = 3 then [ang_vel_PID, ang_pos_PID]
         else if m = 4 \<or> m = 5 \<or> m = 6 then [ang_vel_PID, ang_pos_PID2, lin_vel_PID]
         else if m = 7 then [ang_vel_PID, ang_pos_PID, lin_vel_PID, lin_pos_PID]
         else PIDs d)"

definition set_mode :: "int \<Rightarrow> drone \<Rightarrow> py_error + drone" where
  "set_mode m d =
     ebind (preset_setpoint m (state d)) (\<lambda>sp.
       let d1 = d\<lparr>setpoint := sp, mode := m\<rparr>;
           d2 = d1\<lparr>PIDs := instantiate_PIDs m d1\<rparr>
       in Inr (d2\<lparr>PIDs := map PID_reset (PIDs d2)\<rparr>))"

text \<open>
  \<open>Drone.reset\<close>: mode 0, then zeros for state and setpoint (and for the motor
  speeds and pulse widths, which the record does not hold), then the state as the engine
  gives it after the pose is put back to the start.
\<close>

definition reset :: "vec3 \<times> vec3 \<times> vec3 \<times> vec3 \<Rightarrow> drone \<Rightarrow> py_error + drone" where
  "reset rd d =
     ebind (set_mode 0 d) (\<lambda>d1.
       Inr (update_state rd
              (d1\<lparr>state := replicate 4 (replicate 3 0), setpoint := replicate 4 0\<rparr>)))"

text \<open>
  \<open>Drone.__init__\<close>: the check of the physics rate, the control period, the gains, the
  two height controllers, and \<open>reset\<close>. Line 87 computes
  \<open>np.sqrt((self.t2w * 9.81) / (4 * self.kf))\<close>: the division of two Python floats
  raises for a zero divisor, the square root of a negative ratio is nan and raises nothing,
  and the value is an operand of the motor model only. The attributes that \<open>reset\<close>
  creates (state, setpoint, mode) do not exist before it; mode 0 reads none of them, and the
  record holds empty values for them until then.
\<close>

definition Drone_init ::
  "drone_params \<Rightarrow> real \<Rightarrow> real \<Rightarrow> vec3 \<times> vec3 \<times> vec3 \<times> vec3 \<Rightarrow> py_error + drone" where
  "Drone_init params ctrl_hz physics_hz_arg rd =
     (if physics_hz_arg \<noteq> 240 then Inl UserWarning
      else if ctrl_hz = 0 then Inl ZeroDivisionError
      else if 4 * thrust_const params = 0 then Inl ZeroDivisionError
      else
        let period = 1 / ctrl_hz;
            z_pos_PID = PID_init (g_kp (z_pos params)) (g_ki (z_pos params))
                          (g_kd (z_pos params)) (g_lim (z_pos params)) period;
            z_vel_PID = PID_init (g_kp (z_vel params)) (g_ki (z_vel params))
                          (g_kd (z_vel params)) (g_lim (z_vel params)) period
        in reset rd
             \<lparr>ctrl_period = period,
              Kp_ang_vel = g_kp (ang_vel params), Ki_ang_vel = g_ki (ang_vel params),
              Kd_ang_vel = g_kd (ang_vel params), lim_ang_vel = g_lim (ang_vel params),
              Kp_ang_pos = g_kp (ang_pos params), Ki_ang_pos = g_ki (ang_pos params),
              Kd_ang_pos = g_kd (ang_pos params), lim_ang_pos = g_lim (ang_pos params),
              Kp_lin_vel = g_kp (lin_vel params), Ki_lin_vel = g_ki (lin_vel params),
              Kd_lin_vel = g_kd (lin_vel params), lim_lin_vel = g_lim (lin_vel params),
              Kp_lin_pos = g_kp (lin_pos params), Ki_lin_pos = g_ki (lin_pos params),
              Kd_lin_pos = g_kd (lin_pos params), lim_lin_pos = g_lim (lin_pos params),
              z_PIDs = [z_vel_PID, z_pos_PID],
              PIDs = [],
              mode = 0, state = [], setpoint = []\<rparr>)"

subsection \<open>The control cascade (\<open>Drone.update_control\<close>)\<close>

text \<open>\<open>cs[k].step(measured, target)\<close>: the controller at index \<open>k\<close> is stepped in place.\<close>

definition step_PID_at ::
  "nat \<Rightarrow> real list \<Rightarrow> real list \<Rightarrow> PID list \<Rightarrow> py_error + (real list \<times> PID list)" where
  "step_PID_at k measured target cs =
     (if k < length cs
      then (case PID_step (cs ! k) measured target of (c', out) \<Rightarrow> Inr (out, cs[k := c']))
      else Inl IndexError)"

text \<open>
  \<open>rot_mat = np.array([[c, -s], [s, c]]).T\<close> with \<open>c, s\<close> the cosine and sine of
  the yaw, applied to a lateral command. The source computes them in float64; the model
  takes the exact cosine, sine and products, and no statement below rests on their values.
\<close>

definition yaw_rotate :: "real \<Rightarrow> real list \<Rightarrow> py_error + real list" where
  "yaw_rotate yaw v = (let c = cos yaw; s = sin yaw in matmul [[c, s], [- s, c]] v)"

text \<open>
  The tail that modes 4, 5 and 6 share (lines 358 to 363 and 370 to 375): lateral velocity,
  then the two-axis attitude, then the angular rate with the yaw rate of the setpoint.
\<close>

definition velocity_cascade ::
  "drone \<Rightarrow> real list \<Rightarrow> PID list \<Rightarrow> py_error + (real list option \<times> PID list)" where
  "velocity_cascade d target cs =
     ebind (py_idx (state d) 2) (\<lambda>s2.
     ebind (step_PID_at 2 (take 2 s2) target cs) (\<lambda>(out, cs).
     ebind (py_idx out 1) (\<lambda>o1.
     ebind (py_idx out 0) (\<lambda>o0.
     ebind (py_idx (state d) 1) (\<lambda>s1.
     ebind (step_PID_at 1 (take 2 s1) [- o1, o0] cs) (\<lambda>(out, cs).
     ebind (py_idx (state d) 0) (\<lambda>s0.
     ebind (py_idx (setpoint d) 2) (\<lambda>sp2.
     ebind (step_PID_at 0 s0 (out @ [sp2]) cs) (\<lambda>(out, cs).
       Inr (Some out, cs))))))))))"

text \<open>Lines 350 to 387: the angle controllers. \<open>None\<close> is Python's \<open>None\<close>.\<close>

definition angle_control :: "drone \<Rightarrow> py_error + (real list option \<times> PID list)" where
  "angle_control d =
     (if mode d = 0 \<or> mode d = 2 then
        ebind (py_idx (state d) 0) (\<lambda>s0.
        ebind (step_PID_at 0 s0 (take 3 (setpoint d)) (PIDs d)) (\<lambda>(out, cs).
          Inr (Some out, cs)))
      else if mode d = 1 \<or> mode d = 3 then
        ebind (py_idx (state d) 1) (\<lambda>s1.
        ebind (step_PID_at 1 s1 (take 3 (setpoint d)) (PIDs d)) (\<lambda>(out, cs).
        ebind (py_idx (state d) 0) (\<lambda>s0.
        ebind (step_PID_at 0 s0 out cs) (\<lambda>(out, cs).
          Inr (Some out, cs)))))
      else if mode d = 4 \<or> mode d = 5 then
        velocity_cascade d (take 2 (setpoint d)) (PIDs d)
      else if mode d = 6 then
        ebind (py_idx (state d) 1) (\<lambda>s1.
        ebind (py_idx s1 (-1)) (\<lambda>yaw.
        ebind (yaw_rotate yaw (take 2 (setpoint d))) (\<lambda>target.
          velocity_cascade d target (PIDs d))))
      else if mode d = 7 then
        ebind (py_idx (state d) 3) (\<lambda>s3.
        ebind (step_PID_at 3 (take 2 s3) (take 2 (setpoint d)) (PIDs d)) (\<lambda>(out, cs).
        ebind (py_idx (state d) 1) (\<lambda>s1.
        ebind (py_idx s1 (-1)) (\<lambda>yaw.
        ebind (yaw_rotate yaw out) (\<lambda>out.
        ebind (py_idx (state d) 2) (\<lambda>s2.
        ebind (step_PID_at 2 (take 2 s2) out cs) (\<lambda>(out, cs).
        ebind (py_idx out 1) (\<lambda>o1.
        ebind (py_idx out 0) (\<lambda>o0.
        ebind (py_idx (setpoint d) 2) (\<lambda>sp2.
        ebind (step_PID_at 1 s1 [- o1, o0, sp2] cs) (\<lambda>(out, cs).
        ebind (py_idx (state d) 0) (\<lambda>s0.
        ebind (step_PID_at 0 s0 out cs) (\<lambda>(out, cs).
          Inr (Some out, cs))))))))))))))
      else Inr (None, PIDs d))"

text \<open>
  Lines 389 to 399: the height controllers, \<open>z_PIDs = [z_vel_PID, z_pos_PID]\<close>. A
  scalar is a vector of one element.
\<close>

definition height_control :: "drone \<Rightarrow> py_error + (real list option \<times> PID list)" where
  "height_control d =
     (if mode d = 0 then
        ebind (py_idx (setpoint d) (-1)) (\<lambda>t. Inr (Some [clip01 t], z_PIDs d))
      else if mode d = 1 \<or> mode d = 5 \<or> mode d = 6 then
        ebind (py_idx (state d) 2) (\<lambda>s2.
        ebind (py_idx s2 (-1)) (\<lambda>w.
        ebind (py_idx (setpoint d) (-1)) (\<lambda>t.
        ebind (step_PID_at 0 [w] [t] (z_PIDs d)) (\<lambda>(out, zs).
          Inr (Some (map clip01 out), zs)))))
      else if mode d = 2 \<or> mode d = 3 \<or> mode d = 4 \<or> mode d = 7 then
        ebind (py_idx (state d) 3) (\<lambda>s3.
        ebind (py_idx s3 (-1)) (\<lambda>z.
        ebind (py_idx (setpoint d) (-1)) (\<lambda>t.
        ebind (step_PID_at 1 [z] [t] (z_PIDs d)) (\<lambda>(out, zs).
        ebind (py_idx (state d) 2) (\<lambda>s2.
        ebind (py_idx s2 (-1)) (\<lambda>w.
        ebind (step_PID_at 0 [w] out zs) (\<lambda>(out, zs).
          Inr (Some (map clip01 out), zs))))))))
      else Inr (None, z_PIDs d))"

text \<open>
  Line 402: \<open>self.pwm = self.cmd2pwm(np.array([*output, z_output]))\<close>. Unpacking
  \<open>None\<close> is a \<open>TypeError\<close>, and \<open>np.matmul\<close> of the 4 by 4 motor map
  raises a \<open>ValueError\<close> for a command that has not four components. What
  \<open>cmd2pwm\<close> computes from the command is float64 arithmetic and is not modelled; the
  record does not hold \<open>self.pwm\<close>.
\<close>

definition update_control :: "drone \<Rightarrow> py_error + drone" where
  "update_control d =
     ebind (angle_control d) (\<lambda>(output, cs).
     ebind (height_control d) (\<lambda>(z_output, zs).
       case output of
         None \<Rightarrow> Inl TypeError
       | Some out \<Rightarrow>
           (case z_output of
              None \<Rightarrow> Inl TypeError
            | Some z \<Rightarrow>
                if length (out @ z) = 4 then Inr (d\<lparr>PIDs := cs, z_PIDs := zs\<rparr>)
                else Inl ValueError)))"

subsection \<open>A vehicle to evaluate on\<close>

definition example_gains :: "nat \<Rightarrow> gains" where
  "example_gains n =
     \<lparr>g_kp = replicate n 1, g_ki = replicate n 1, g_kd = replicate n 0, g_lim = replicate n 1\<rparr>"

definition example_params :: drone_params where
  "example_params =
     \<lparr>thrust_to_weight = 400 / 981, thrust_const = 1 / 4,
      ang_vel = example_gains 3, ang_pos = example_gains 3,
      lin_vel = example_gains 2, lin_pos = example_gains 2,
      z_pos = example_gains 1, z_vel = example_gains 1\<rparr>"

text \<open>
  The engine's answer: at rest in rotation, yaw 0.4, sinking with 0.5, at world position
  (2, 3, 1).
\<close>

definition example_read :: "vec3 \<times> vec3 \<times> vec3 \<times> vec3" where
  "example_read = ((0, 0, 0), (0, 0, 0.4), (0, 0, -0.5), (2, 3, 1))"

text \<open>What \<open>Drone_init example_params 120 240 example_read\<close> returns.\<close>

definition example_drone :: drone where
  "example_drone =
     \<lparr>ctrl_period = 1 / 120,
      Kp_ang_vel = [1, 1, 1], Ki_ang_vel = [1, 1, 1], Kd_ang_vel = [0, 0, 0],
      lim_ang_vel = [1, 1, 1],
      Kp_ang_pos = [1, 1, 1], Ki_ang_pos = [1, 1, 1], Kd_ang_pos = [0, 0, 0],
      lim_ang_pos = [1, 1, 1],
      Kp_lin_vel = [1, 1], Ki_lin_vel = [1, 1], Kd_lin_vel = [0, 0], lim_lin_vel = [1, 1],
      Kp_lin_pos = [1, 1], Ki_lin_pos = [1, 1], Kd_lin_pos = [0, 0], lim_lin_pos = [1, 1],
      z_PIDs = [PID_init [1] [1] [0] [1] (1 / 120), PID_init [1] [1] [0] [1] (1 / 120)],
      PIDs = [PID_init [1, 1, 1] [1, 1, 1] [0, 0, 0] [1, 1, 1] (1 / 120)],
      mode = 0,
      state = [[0, 0, 0], [0, 0, 0.4], [0, 0, -0.5], [2, 3, 1]],
      setpoint = [0, 0, 0, 0]\<rparr>"

section \<open>The multi-agent environment: \<open>src/PyFlyt/pz_envs/fixedwing_envs/ma_fixedwing_base_env.py\<close>\<close>

subsection \<open>Python helpers\<close>

text \<open>\<open>int(a / b)\<close> for integers: the true quotient, cut towards zero.\<close>

definition int_truediv :: "int \<Rightarrow> int \<Rightarrow> py_error + int" where
  "int_truediv a b =
     (if b = 0 then Inl ZeroDivisionError else Inr (sgn a * sgn b * (\<bar>a\<bar> div \<bar>b\<bar>)))"

text \<open>\<open>int(x)\<close> for a float: cut towards zero.\<close>

definition py_int :: "real \<Rightarrow> int" where
  "py_int x = (if 0 \<le> x then floor x else ceiling x)"

text \<open>\<open>str(n)\<close> for a natural number: its decimal digits.\<close>

fun str_nat :: "nat \<Rightarrow> string" where
  "str_nat n =
     (if n < 10 then [''0123456789'' ! n]
      else str_nat (n div 10) @ [''0123456789'' ! (n mod 10)])"

declare str_nat.simps [simp del]

text \<open>\<open>dict(pairs)\<close>: of two pairs with the same key the later one stays.\<close>

definition dict_of :: "('k \<times> 'v) list \<Rightarrow> ('k \<rightharpoonup> 'v)" where
  "dict_of ps = map_of (rev ps)"

text \<open>A numpy array, as far as the constructor looks at it: its shape and its numbers.\<close>

record ndarray =
  nd_shape :: "nat list"
  nd_data :: "real list"

subsection \<open>Construction (\<open>MAFixedwingBaseEnv.__init__\<close>) and \<open>begin_reset\<close>\<close>

text \<open>
  The attributes of \<open>self\<close>; the observation spaces are left out. \<open>action_dim\<close> is the
  length of the action space's vectors. \<open>aviary\<close> is \<open>None\<close> as long as the attribute
  does not exist (before the first reset); \<open>agents\<close> and \<open>step_count\<close> are created
  together with it.
\<close>

record 'sim env =
  start_pos :: ndarray
  start_orn :: ndarray
  flight_dome_size :: real
  max_steps :: int
  env_step_ratio :: int
  angle_representation :: nat
  render_mode :: bool
  action_dim :: nat
  num_possible_agents :: nat
  possible_agents :: "string list"
  agent_name_mapping :: "string \<rightharpoonup> nat"
  current_actions :: "real list list"
  past_actions :: "real list list"
  agents :: "string list"
  step_count :: int
  aviary :: "'sim option"

text \<open>Lines 44 to 49. The hint of the message is computed before the raise.\<close>

definition check_agent_hz :: "int \<Rightarrow> py_error + unit" where
  "check_agent_hz agent_hz =
     (if agent_hz = 0 then Inl ZeroDivisionError
      else if 120 mod agent_hz \<noteq> 0 then
        ebind (int_truediv 120 agent_hz) (\<lambda>q.
        ebind (int_truediv 120 (q + 1)) (\<lambda>lowest.
        ebind (int_truediv 120 q) (\<lambda>highest.
          Inl (AssertionError (AgentHzMsg lowest highest)))))
      else Inr ())"

text \<open>Lines 51 to 55; \<open>render_modes\<close> is \<open>self.metadata["render_modes"]\<close>.\<close>

definition check_render_mode :: "string list \<Rightarrow> string option \<Rightarrow> py_error + bool" where
  "check_render_mode render_modes rm =
     (case rm of
        None \<Rightarrow> Inr False
      | Some r \<Rightarrow> if r \<in> set render_modes then Inr True else Inl (AssertionError RenderModeMsg))"

text \<open>Lines 59 to 66; the result is \<open>attitude_shape\<close>.\<close>

definition check_angle_representation :: "string \<Rightarrow> py_error + nat" where
  "check_angle_representation a =
     (if a = ''euler'' then Inr 12
      else if a = ''quaternion'' then Inr 13
      else Inl (AssertionError (AngleReprMsg a)))"

text \<open>Lines 90 to 98: the three assertions on the start arrays, with one message.\<close>

definition check_start :: "ndarray \<Rightarrow> ndarray \<Rightarrow> py_error + unit" where
  "check_start sp so =
     (if length (nd_shape sp) \<noteq> 2 then Inl (AssertionError (StartPosShapeMsg (nd_shape sp)))
      else if last (nd_shape sp) \<noteq> 3 then Inl (AssertionError (StartPosShapeMsg (nd_shape sp)))
      else if nd_shape sp \<noteq> nd_shape so then Inl (AssertionError (StartPosShapeMsg (nd_shape sp)))
      else Inr ())"

definition MAFixedwingBaseEnv_init ::
  "string list \<Rightarrow> ndarray \<Rightarrow> ndarray \<Rightarrow> bool \<Rightarrow> real \<Rightarrow> real \<Rightarrow> string \<Rightarrow> int \<Rightarrow> string option
     \<Rightarrow> py_error + 'sim env" where
  "MAFixedwingBaseEnv_init render_modes sp so assisted_flight dome max_duration_seconds
       angle_repr agent_hz rm =
     ebind (check_agent_hz agent_hz) (\<lambda>_.
     ebind (check_render_mode render_modes rm) (\<lambda>render.
     ebind (check_angle_representation angle_repr) (\<lambda>attitude_shape.
     ebind (check_start sp so) (\<lambda>_.
     ebind (int_truediv 120 agent_hz) (\<lambda>ratio.
       let n = hd (nd_shape sp);
           names = map (\<lambda>r. ''uav_'' @ str_nat r) [0..<n];
           dim = (if assisted_flight then 4 else 6)
       in Inr \<lparr>start_pos = sp, start_orn = so, flight_dome_size = dome,
               max_steps = py_int (of_int agent_hz * max_duration_seconds),
               env_step_ratio = ratio,
               angle_representation = (if angle_repr = ''euler'' then 0 else 1),
               render_mode = render,
               action_dim = dim,
               num_possible_agents = n,
               possible_agents = names,
               agent_name_mapping = dict_of (zip names [0..<length names]),
               current_actions = replicate n (replicate dim 0),
               past_actions = replicate n (replicate dim 0),
               agents = [], step_count = 0, aviary = None\<rparr>)))))"

text \<open>
  \<open>begin_reset\<close>: the step counter, the live agents and a new aviary. The aviary is
  built by \<open>PyFlyt.core.Aviary\<close> outside the model and is the argument.
\<close>

definition begin_reset :: "'sim \<Rightarrow> 'sim env \<Rightarrow> 'sim env" where
  "begin_reset new_aviary e =
     e\<lparr>step_count := 0, agents := possible_agents e, aviary := Some new_aviary\<rparr>"

subsection \<open>\<open>MAFixedwingBaseEnv.step\<close>\<close>

text \<open>
  What a concrete task and the aviary supply: the two calls on the aviary and the two
  hooks, which read the environment and change nothing.
\<close>

record ('sim, 'obs, 'v) task =
  set_all_setpoints :: "real list list \<Rightarrow> 'sim \<Rightarrow> 'sim"
  aviary_step :: "'sim \<Rightarrow> 'sim"
  compute_term_trunc_reward_info_by_id ::
    "'sim env \<Rightarrow> nat \<Rightarrow> bool \<times> bool \<times> real \<times> (string \<rightharpoonup> 'v)"
  compute_observation_by_id :: "'sim env \<Rightarrow> nat \<Rightarrow> 'obs"

text \<open>The five dictionaries that \<open>step\<close> returns.\<close>

record ('obs, 'v) step_result =
  observations :: "string \<rightharpoonup> 'obs"
  rewards :: "string \<rightharpoonup> real"
  terminations :: "string \<rightharpoonup> bool"
  truncations :: "string \<rightharpoonup> bool"
  infos :: "string \<rightharpoonup> (string \<rightharpoonup> 'v)"

text \<open>
  Lines 275 and 276: \<open>for k, v in actions.items(): self.current_actions[mapping[k]] = v\<close>.
  The dictionary is the list of its items in their order.
\<close>

fun set_actions ::
  "(string \<rightharpoonup> nat) \<Rightarrow> (string \<times> real list) list \<Rightarrow> real list list
     \<Rightarrow> py_error + real list list" where
  "set_actions m [] buf = Inr buf"
| "set_actions m ((k, v) # rest) buf =
     (case m k of
        None \<Rightarrow> Inl KeyError
      | Some i \<Rightarrow>
          if i < length buf
          then ebind (np_bcast (length (buf ! i)) v) (\<lambda>row. set_actions m rest (buf[i := row]))
          else Inl IndexError)"

text \<open>
  Lines 270 to 277, the dispatch phase: the snapshot of the buffer, \<open>*= 0.0\<close>, the
  actions of the mapping, and the call that hands the buffer to the aviary.
\<close>

definition dispatch_actions ::
  "('sim, 'obs, 'v) task \<Rightarrow> 'sim env \<Rightarrow> (string \<times> real list) list \<Rightarrow> py_error + 'sim env" where
  "dispatch_actions t e actions =
     (let e1 = e\<lparr>past_actions := current_actions e\<rparr>;
          e2 = e1\<lparr>current_actions := map (map (\<lambda>x. x * 0)) (current_actions e1)\<rparr>
      in ebind (set_actions (agent_name_mapping e2) actions (current_actions e2)) (\<lambda>buf.
           case aviary e2 of
             None \<Rightarrow> Inl AttributeError
           | Some a \<Rightarrow>
               Inr (e2\<lparr>current_actions := buf, aviary := Some (set_all_setpoints t buf a)\<rparr>)))"

text \<open>Lines 291 to 304: the loop over the live agents in one substep.\<close>

fun agents_loop ::
  "('sim, 'obs, 'v) task \<Rightarrow> 'sim env \<Rightarrow> string list \<Rightarrow> ('obs, 'v) step_result
     \<Rightarrow> py_error + ('obs, 'v) step_result" where
  "agents_loop t e [] r = Inr r"
| "agents_loop t e (ag # rest) r =
     (case agent_name_mapping e ag of
        None \<Rightarrow> Inl KeyError
      | Some ag_id \<Rightarrow>
         (case compute_term_trunc_reward_info_by_id t e ag_id of
            (term, trunc, rew, info) \<Rightarrow>
         (case terminations r ag of None \<Rightarrow> Inl KeyError | Some te \<Rightarrow>
         (case truncations r ag of None \<Rightarrow> Inl KeyError | Some tr \<Rightarrow>
         (case rewards r ag of None \<Rightarrow> Inl KeyError | Some rw \<Rightarrow>
         (case infos r ag of None \<Rightarrow> Inl KeyError | Some old_info \<Rightarrow>
            agents_loop t e rest
              (r\<lparr>terminations := (terminations r)(ag \<mapsto> te \<or> term),
                 truncations := (truncations r)(ag \<mapsto> tr \<or> trunc),
                 rewards := (rewards r)(ag \<mapsto> rw + rew),
                 infos := (infos r)(ag \<mapsto> old_info ++ info),
                 observations :=
                   (observations r)(ag \<mapsto> compute_observation_by_id t e ag_id)\<rparr>)))))))"

text \<open>Lines 287 to 304: \<open>n\<close> substeps, each one tick of the aviary and one agent loop.\<close>

fun substeps ::
  "('sim, 'obs, 'v) task \<Rightarrow> nat \<Rightarrow> 'sim env \<Rightarrow> ('obs, 'v) step_result
     \<Rightarrow> py_error + ('sim env \<times> ('obs, 'v) step_result)" where
  "substeps t 0 e r = Inr (e, r)"
| "substeps t (Suc n) e r =
     (case aviary e of
        None \<Rightarrow> Inl AttributeError
      | Some a \<Rightarrow>
          let e1 = e\<lparr>aviary := Some (aviary_step t a)\<rparr>
          in ebind (agents_loop t e1 (agents e1) r) (\<lambda>r1. substeps t n e1 r1))"

text \<open>
  Lines 308 to 312: the agents that stay, those with neither flag set; \<open>or\<close> does not
  look at the truncation of a terminated agent.
\<close>

fun cull :: "('obs, 'v) step_result \<Rightarrow> string list \<Rightarrow> py_error + string list" where
  "cull r [] = Inr []"
| "cull r (agent # rest) =
     (case terminations r agent of
        None \<Rightarrow> Inl KeyError
      | Some te \<Rightarrow>
          if te then cull r rest
          else (case truncations r agent of
                  None \<Rightarrow> Inl KeyError
                | Some tr \<Rightarrow>
                    if tr then cull r rest
                    else ebind (cull r rest) (\<lambda>live. Inr (agent # live))))"

text \<open>
  \<open>step\<close>: the dispatch, the five dictionaries keyed by the live agents (the
  observations start empty), \<open>range(self.env_step_ratio)\<close> substeps, the step counter
  and the culling. The result is the returned tuple and the environment after the call.
\<close>

definition step ::
  "('sim, 'obs, 'v) task \<Rightarrow> 'sim env \<Rightarrow> (string \<times> real list) list
     \<Rightarrow> py_error + (('obs, 'v) step_result \<times> 'sim env)" where
  "step t e actions =
     ebind (dispatch_actions t e actions) (\<lambda>e1.
       let r0 = \<lparr>observations = Map.empty,
                 rewards = map_of (map (\<lambda>k. (k, 0)) (agents e1)),
                 terminations = map_of (map (\<lambda>k. (k, False)) (agents e1)),
                 truncations = map_of (map (\<lambda>k. (k, False)) (agents e1)),
                 infos = map_of (map (\<lambda>k. (k, Map.empty)) (agents e1))\<rparr>
       in ebind (substeps t (nat (env_step_ratio e1)) e1 r0) (\<lambda>(e2, r).
          ebind (cull r (agents e2)) (\<lambda>live.
            Inr (r, e2\<lparr>step_count := step_count e2 + 1, agents := live\<rparr>))))"

subsection \<open>An environment to evaluate on\<close>

text \<open>
  Two agents, the default arguments otherwise; the aviary is a tick counter, the first
  agent terminates and every substep pays the reward 1.
\<close>

definition example_task :: "(nat, nat, int) task" where
  "example_task =
     \<lparr>set_all_setpoints = (\<lambda>buf a. a),
      aviary_step = Suc,
      compute_term_trunc_reward_info_by_id = (\<lambda>e i. (i = 0, False, 1, Map.empty)),
      compute_observation_by_id = (\<lambda>e i. i)\<rparr>"

definition example_start :: ndarray where
  "example_start = \<lparr>nd_shape = [2, 3], nd_data = [0, 0, 1, 0, 0, 2]\<rparr>"

text \<open>
  What \<open>MAFixedwingBaseEnv_init [] example_start example_start True 150 60 ''euler'' 30 None\<close>
  followed by \<open>begin_reset 0\<close> gives.
\<close>

definition example_env :: "nat env" where
  "example_env =
     \<lparr>start_pos = example_start, start_orn = example_start, flight_dome_size = 150,
      max_steps = 1800, env_step_ratio = 4, angle_representation = 0, render_mode = False,
      action_dim = 4, num_possible_agents = 2,
      possible_agents = [''uav_0'', ''uav_1''],
      agent_name_mapping = dict_of [(''uav_0'', 0), (''uav_1'', 1)],
      current_actions = [[0, 0, 0, 0], [0, 0, 0, 0]],
      past_actions = [[0, 0, 0, 0], [0, 0, 0, 0]],
      agents = [''uav_0'', ''uav_1''], step_count = 0, aviary = Some 0\<rparr>"

section \<open>Facts about the vehicle\<close>

lemma Drone_init_example:
  "Drone_init example_params 120 240 example_read = Inr example_drone"
  by (simp add: Drone_init_def example_params_def example_gains_def example_read_def
      example_drone_def reset_def set_mode_def preset_setpoint_def instantiate_PIDs_def
      ebind_def update_state_def vec3_list_def PID_init_def PID_reset_def Let_def
      numeral_eq_Suc)

lemma state_ok_rows:
  assumes "state_ok st"
  shows "length st = 4" "length (st ! 1) = 3" "length (st ! 3) = 3"
  using assms by (auto simp: state_ok_def list_all_length)

lemma preset_setpoint_table:
  assumes "state_ok st"
  shows "preset_setpoint m st =
     Inr (if m = 0 then [0, 0, 0, -1]
          else if m = 1 \<or> m = 5 \<or> m = 6 then [0, 0, 0, 0]
          else if m = 7 then [st ! 3 ! 0, st ! 3 ! 1, st ! 1 ! 2]
          else [0, 0, 0, st ! 3 ! 2])"
proof -
  note r = state_ok_rows [OF assms]
  have l3: "py_idx st (-1) = Inr (st ! 3)"
    using r(1) by (simp add: py_idx_def)
  have l1: "py_idx st 1 = Inr (st ! 1)"
    using r(1) by (simp add: py_idx_def)
  have yaw: "py_idx (st ! 1) (-1) = Inr (st ! 1 ! 2)"
    using r(2) by (simp add: py_idx_def)
  have z: "py_idx (st ! 3) (-1) = Inr (st ! 3 ! 2)"
    using r(3) by (simp add: py_idx_def)
  have tk: "take 2 (st ! 3) = [st ! 3 ! 0, st ! 3 ! 1]"
    using r(3) by (cases "st ! 3"; cases "tl (st ! 3)") (auto simp: nth_Cons')
  show ?thesis
    unfolding preset_setpoint_def l3 l1 using yaw z tk by (simp add: ebind_def)
qed

text \<open>
  Claim C4. For every mode from 0 to 7 and every vehicle state (a 4 by 3 matrix),
  \<open>set_mode\<close> returns, and the setpoint right after it is the default of the mode:
  (0, 0, 0, -1) for mode 0; the zero vector for modes 1, 5 and 6; zeros with the current
  height as last component for modes 2, 3 and 4; (world x, world y, yaw) for mode 7. The
  witness enters mode 7 at world position (2, 3) with yaw 0.4 and reads (2, 3, 0.4).
\<close>

theorem set_mode_setpoint:
  assumes "0 \<le> m" and "m \<le> 7" and "state_ok (state d)"
  shows "\<exists>d'. set_mode m d = Inr d' \<and> mode d' = m \<and>
           setpoint d' =
             (if m = 0 then [0, 0, 0, -1]
              else if m = 1 \<or> m = 5 \<or> m = 6 then [0, 0, 0, 0]
              else if m = 2 \<or> m = 3 \<or> m = 4 then [0, 0, 0, state d ! 3 ! 2]
              else [state d ! 3 ! 0, state d ! 3 ! 1, state d ! 1 ! 2])"
proof -
  have "m = 0 \<or> m = 1 \<or> m = 2 \<or> m = 3 \<or> m = 4 \<or> m = 5 \<or> m = 6 \<or> m = 7"
    using assms(1,2) by presburger
  then show ?thesis
    unfolding set_mode_def preset_setpoint_table [OF assms(3)]
    by (auto simp: ebind_def Let_def)
qed

theorem set_mode_setpoint_witness:
  "(0::int) \<le> 7 \<and> state_ok (state example_drone) \<and>
   state example_drone ! 3 = [2, 3, 1] \<and> state example_drone ! 1 ! 2 = 0.4 \<and>
   map_sum id setpoint (set_mode 7 example_drone) = Inr [2, 3, 0.4] \<and>
   map_sum id setpoint (set_mode 3 example_drone) = Inr [0, 0, 0, 1]"
  using set_mode_setpoint [of 7 example_drone] set_mode_setpoint [of 3 example_drone]
  by (auto simp: example_drone_def state_ok_def)

text \<open>
  Claim C5 says that the setpoint has four components after \<open>set_mode\<close> for every
  mode. The code gives three in mode 7, where the docstring of \<open>set_mode\<close> lists
  the four quantities x, y, r, z. The height stage of \<open>update_control\<close> then reads
  the last component, the yaw 0.4, as its height target: at height 1 the position
  controller \<open>z_PIDs[1]\<close> sees the error 0.4 - 1.
\<close>

theorem set_mode_7_setpoint_length:
  "map_sum id (\<lambda>d. (setpoint d, length (setpoint d))) (set_mode 7 example_drone)
     = Inr ([2, 3, 0.4], 3) \<and>
   map_sum id (\<lambda>r. pid_prev_error (snd r ! 1)) (ebind (set_mode 7 example_drone) height_control)
     = Inr [- 0.6]"
  by (simp add: set_mode_def preset_setpoint_def instantiate_PIDs_def height_control_def
      step_PID_at_def PID_step_def PID_reset_def PID_init_def example_drone_def ebind_def
      py_idx_def Let_def)

lemma fresh_PID_reset: "fresh (PID_reset c)"
  by (simp add: fresh_def PID_reset_def list_all_iff)

lemma instantiate_PIDs_length:
  assumes "0 \<le> m" and "m \<le> 7"
  shows "length (instantiate_PIDs m d) =
           (if m = 0 \<or> m = 2 then 1 else if m = 1 \<or> m = 3 then 2
            else if m = 4 \<or> m = 5 \<or> m = 6 then 3 else 4)"
proof -
  have "m = 0 \<or> m = 1 \<or> m = 2 \<or> m = 3 \<or> m = 4 \<or> m = 5 \<or> m = 6 \<or> m = 7"
    using assms by presburger
  then show ?thesis
    by (auto simp: instantiate_PIDs_def Let_def)
qed

lemma instantiate_PIDs_frame:
  "instantiate_PIDs m (d\<lparr>setpoint := sp, mode := k\<rparr>) = instantiate_PIDs m d"
  by (simp add: instantiate_PIDs_def Let_def)

text \<open>
  Claim C7, amended. For every mode from 0 to 7, \<open>set_mode\<close> constructs the
  controllers of the mode's cascade and resets each: right after it every controller of
  \<open>PIDs\<close> has zero integrator and zero previous error, and the cascade has the
  length whose indices \<open>update_control\<close> steps in that mode (1, 2, 3 or 4). The two
  height controllers are constructed once, by the constructor of the vehicle, and
  \<open>set_mode\<close> hands them on as they are.
\<close>

theorem set_mode_cascade_fresh:
  assumes "0 \<le> m" and "m \<le> 7" and "state_ok (state d)"
  shows "\<exists>d'. set_mode m d = Inr d' \<and>
           PIDs d' = map PID_reset (instantiate_PIDs m d) \<and>
           list_all fresh (PIDs d') \<and>
           length (PIDs d') =
             (if m = 0 \<or> m = 2 then 1 else if m = 1 \<or> m = 3 then 2
              else if m = 4 \<or> m = 5 \<or> m = 6 then 3 else 4) \<and>
           z_PIDs d' = z_PIDs d"
proof -
  from preset_setpoint_table [OF assms(3), of m] obtain sp
    where sp: "preset_setpoint m (state d) = Inr sp" by blast
  define d' where
    "d' = d\<lparr>setpoint := sp, mode := m, PIDs := map PID_reset (instantiate_PIDs m d)\<rparr>"
  have sm: "set_mode m d = Inr d'"
    unfolding set_mode_def sp d'_def
    by (simp add: ebind_def Let_def instantiate_PIDs_frame)
  have p: "PIDs d' = map PID_reset (instantiate_PIDs m d)"
    unfolding d'_def by simp
  have f: "list_all fresh (PIDs d')"
    unfolding p by (simp add: list_all_iff fresh_PID_reset)
  have l: "length (PIDs d') =
             (if m = 0 \<or> m = 2 then 1 else if m = 1 \<or> m = 3 then 2
              else if m = 4 \<or> m = 5 \<or> m = 6 then 3 else 4)"
    unfolding p using instantiate_PIDs_length [OF assms(1,2), of d] by simp
  have z: "z_PIDs d' = z_PIDs d"
    unfolding d'_def by simp
  show ?thesis using sm p f l z by blast
qed

theorem set_mode_cascade_fresh_witness:
  "(0::int) \<le> 5 \<and> state_ok (state example_drone) \<and>
   map_sum id (\<lambda>d. (map pid_integral (PIDs d), map pid_prev_error (PIDs d)))
     (set_mode 5 example_drone)
     = Inr ([[0, 0, 0], [0, 0], [0, 0]], [[0, 0, 0], [0, 0], [0, 0]]) \<and>
   map_sum id z_PIDs (set_mode 5 example_drone) = Inr (z_PIDs example_drone)"
  using set_mode_cascade_fresh [of 5 example_drone]
  by (auto simp: example_drone_def state_ok_def instantiate_PIDs_def PID_reset_def
      PID_init_def Let_def)

lemmas drone_eval =
  set_mode_def preset_setpoint_def instantiate_PIDs_def update_control_def angle_control_def
  height_control_def velocity_cascade_def step_PID_at_def PID_step_def PID_reset_def
  PID_init_def ebind_def py_idx_def clip01_def fresh_def Let_def

lemma reset_setpoint:
  assumes "reset rd d = Inr d'"
  shows "setpoint d' = [0, 0, 0, 0]" and "state_ok (state d')"
  using assms
  by (auto simp: reset_def ebind_def update_state_def vec3_list_def state_ok_def
      numeral_eq_Suc split: sum.splits prod.splits)

lemma set_mode_setpoint_length_upto_6:
  assumes "0 \<le> m" and "m \<le> 6" and "state_ok (state d)"
  shows "\<exists>d'. set_mode m d = Inr d' \<and> length (setpoint d') = 4"
proof -
  have "m = 0 \<or> m = 1 \<or> m = 2 \<or> m = 3 \<or> m = 4 \<or> m = 5 \<or> m = 6"
    using assms(1,2) by presburger
  then show ?thesis
    unfolding set_mode_def preset_setpoint_table [OF assms(3)]
    by (auto simp: ebind_def Let_def)
qed

lemma mode1_tick:
  "map_sum id (\<lambda>d. (map pid_integral (z_PIDs d), map pid_prev_error (z_PIDs d), mode d))
     (ebind (set_mode 1 example_drone) update_control)
   = Inr ([[1 / 240], [0]], [[1 / 2], [0]], 1)"
  by (simp add: drone_eval example_drone_def)

text \<open>
  Claim C7 as stated fails on the height cascade. The vehicle of the example flies one
  control tick in mode 1 while sinking, which loads the integrator of the vertical-velocity
  controller \<open>z_PIDs[0]\<close>; after \<open>set_mode(5)\<close> that controller still
  holds integrator 1/240 and previous error 1/2, and the next \<open>update_control\<close>
  steps it from there (to 1/120, where a fresh controller would reach 1/240).
\<close>

theorem height_PID_not_fresh_after_set_mode:
  "map_sum id (\<lambda>d. (mode d, pid_integral (z_PIDs d ! 0), pid_prev_error (z_PIDs d ! 0),
                    fresh (z_PIDs d ! 0)))
     (ebind (ebind (set_mode 1 example_drone) update_control) (set_mode 5))
   = Inr (5, [1 / 240], [1 / 2], False) \<and>
   map_sum id (\<lambda>d. pid_integral (z_PIDs d ! 0))
     (ebind (ebind (ebind (set_mode 1 example_drone) update_control) (set_mode 5))
        update_control)
   = Inr [1 / 120]"
  by (simp add: drone_eval example_drone_def)

text \<open>
  Claim C9 says that a mode outside 0 to 7 is refused with an error. The code accepts
  mode 8: \<open>set_mode\<close> returns, stores the mode tag 8, presets the setpoint as
  for modes 2 to 4 and keeps (and resets) the cascade of the mode before. The failure comes
  later and names no constraint: \<open>update_control\<close> unpacks \<open>None\<close>.
\<close>

theorem set_mode_8_accepted:
  "map_sum id (\<lambda>d. (mode d, setpoint d, PIDs d = map PID_reset (PIDs example_drone)))
     (set_mode 8 example_drone) = Inr (8, [0, 0, 0, 1], True) \<and>
   ebind (set_mode 8 example_drone) update_control = Inl TypeError"
  by (simp add: drone_eval example_drone_def)

section \<open>Facts about the construction of the environment\<close>

lemma str_nat_digit: "n < 10 \<Longrightarrow> str_nat n = [''0123456789'' ! n]"
  by (simp add: str_nat.simps)

lemma init_example:
  "map_sum id (begin_reset 0)
     (MAFixedwingBaseEnv_init [] example_start example_start True 150 60 ''euler'' 30 None)
   = Inr example_env"
  by (simp add: MAFixedwingBaseEnv_init_def check_agent_hz_def check_render_mode_def
      check_angle_representation_def check_start_def int_truediv_def py_int_def ebind_def
      example_start_def example_env_def begin_reset_def Let_def upt_rec str_nat_digit
      numeral_eq_Suc)

lemma check_agent_hz_ok: "check_agent_hz agent_hz = Inr () \<longleftrightarrow> agent_hz dvd 120"
proof (cases "agent_hz = 0")
  case True
  then show ?thesis by (simp add: check_agent_hz_def)
next
  case False
  then show ?thesis
    by (auto simp: check_agent_hz_def ebind_def int_truediv_def mod_eq_0_iff_dvd
        split: sum.splits)
qed

lemma check_agent_hz_raises:
  "\<not> agent_hz dvd 120 \<Longrightarrow> \<exists>err. check_agent_hz agent_hz = Inl err"
  using check_agent_hz_ok [of agent_hz] by (cases "check_agent_hz agent_hz") auto

lemma check_agent_hz_message:
  assumes "0 < agent_hz" and "agent_hz \<le> 120" and "\<not> agent_hz dvd 120"
  shows "check_agent_hz agent_hz =
           Inl (AssertionError (AgentHzMsg (120 div (120 div agent_hz + 1))
                                           (120 div (120 div agent_hz))))"
proof -
  have q: "0 < 120 div agent_hz"
    using assms(1,2) by (simp add: pos_imp_zdiv_pos_iff)
  have m: "120 mod agent_hz \<noteq> 0"
    using assms(3) by (simp add: mod_eq_0_iff_dvd)
  show ?thesis
    using assms(1) q m
    by (simp add: check_agent_hz_def int_truediv_def ebind_def)
qed

lemma check_start_ok:
  "check_start sp so = Inr () \<longleftrightarrow>
     length (nd_shape sp) = 2 \<and> last (nd_shape sp) = 3 \<and> nd_shape sp = nd_shape so"
  by (simp add: check_start_def)

lemma check_start_raises:
  "\<not> (length (nd_shape sp) = 2 \<and> last (nd_shape sp) = 3 \<and> nd_shape sp = nd_shape so) \<Longrightarrow>
     check_start sp so = Inl (AssertionError (StartPosShapeMsg (nd_shape sp)))"
  by (auto simp: check_start_def)

lemma check_angle_representation_raises:
  "a \<noteq> ''euler'' \<Longrightarrow> a \<noteq> ''quaternion'' \<Longrightarrow>
     check_angle_representation a = Inl (AssertionError (AngleReprMsg a))"
  by (simp add: check_angle_representation_def)

lemma init_valid:
  assumes "agent_hz dvd 120" and "a = ''euler'' \<or> a = ''quaternion''"
    and "length (nd_shape sp) = 2" and "last (nd_shape sp) = 3" and "nd_shape sp = nd_shape so"
  shows "\<exists>e. MAFixedwingBaseEnv_init modes sp so assisted dome dur a agent_hz None = Inr e"
proof -
  have nz: "agent_hz \<noteq> 0" using assms(1) by auto
  have c1: "check_agent_hz agent_hz = Inr ()"
    using assms(1) by (simp add: check_agent_hz_ok)
  have c3: "\<exists>n. check_angle_representation a = Inr n"
    using assms(2) by (auto simp: check_angle_representation_def)
  have c4: "check_start sp so = Inr ()"
    using assms(3-5) by (simp add: check_start_ok)
  show ?thesis
    using c1 c3 c4 nz
    by (auto simp: MAFixedwingBaseEnv_init_def ebind_def check_render_mode_def
        int_truediv_def Let_def)
qed

lemma init_raises:
  assumes "\<not> agent_hz dvd 120 \<or> (a \<noteq> ''euler'' \<and> a \<noteq> ''quaternion'') \<or>
           \<not> (length (nd_shape sp) = 2 \<and> last (nd_shape sp) = 3 \<and> nd_shape sp = nd_shape so)"
  shows "\<exists>err. MAFixedwingBaseEnv_init modes sp so assisted dome dur a agent_hz rm = Inl err"
proof (cases "check_agent_hz agent_hz")
  case (Inl err)
  then show ?thesis by (simp add: MAFixedwingBaseEnv_init_def ebind_def)
next
  case (Inr u)
  then have dv: "agent_hz dvd 120" using check_agent_hz_ok [of agent_hz] by simp
  show ?thesis
  proof (cases "check_render_mode modes rm")
    case (Inl err)
    then show ?thesis using Inr by (simp add: MAFixedwingBaseEnv_init_def ebind_def)
  next
    case r: (Inr b)
    show ?thesis
    proof (cases "a \<noteq> ''euler'' \<and> a \<noteq> ''quaternion''")
      case True
      then show ?thesis
        using Inr r
        by (simp add: MAFixedwingBaseEnv_init_def ebind_def check_angle_representation_def)
    next
      case False
      then have bad: "\<not> (length (nd_shape sp) = 2 \<and> last (nd_shape sp) = 3 \<and>
                         nd_shape sp = nd_shape so)"
        using assms dv by blast
      from False have "\<exists>n. check_angle_representation a = Inr n"
        by (auto simp: check_angle_representation_def)
      then show ?thesis
        using Inr r check_start_raises [OF bad]
        by (auto simp: MAFixedwingBaseEnv_init_def ebind_def)
    qed
  qed
qed

text \<open>
  Claim C8 says that an agent rate that does not divide 120 is refused with a description
  of the constraint. For a rate above 120 the hint of the message divides by
  \<open>int(120 / agent_hz) = 0\<close>, and what the caller sees is a \<open>ZeroDivisionError\<close>;
  for a rate such as 50 the assertion with its hint (40 or 60) is raised.
\<close>

theorem agent_hz_240_zero_division:
  "check_agent_hz 240 = Inl ZeroDivisionError \<and>
   (MAFixedwingBaseEnv_init [] example_start example_start True 150 60 ''euler'' 240 None
      :: py_error + nat env) = Inl ZeroDivisionError \<and>
   check_agent_hz 50 = Inl (AssertionError (AgentHzMsg 40 60))"
  by (simp add: MAFixedwingBaseEnv_init_def check_agent_hz_def int_truediv_def ebind_def)

section \<open>Facts about the dispatch of actions\<close>

lemma np_bcast_length: "np_bcast n v = Inr row \<Longrightarrow> length row = n"
  by (auto simp: np_bcast_def split: if_splits)

lemma np_bcast_same: "length v = n \<Longrightarrow> np_bcast n v = Inr v"
  by (simp add: np_bcast_def)

lemma set_actions_frame:
  assumes "set_actions m acts buf = Inr buf'"
  shows "length buf' = length buf \<and>
         (\<forall>j < length buf. length (buf' ! j) = length (buf ! j)) \<and>
         (\<forall>j < length buf. (\<forall>k \<in> fst ` set acts. m k \<noteq> Some j) \<longrightarrow> buf' ! j = buf ! j)"
  using assms
proof (induction acts arbitrary: buf)
  case Nil
  then show ?case by simp
next
  case (Cons kv acts)
  obtain k v where kv: "kv = (k, v)" by (cases kv)
  from Cons.prems kv obtain i row where
    i: "m k = Some i" "i < length buf" and
    row: "np_bcast (length (buf ! i)) v = Inr row" and
    rest: "set_actions m acts (buf[i := row]) = Inr buf'"
    by (auto simp: ebind_def split: option.splits if_splits sum.splits)
  note ih = Cons.IH [OF rest]
  have lr: "length row = length (buf ! i)" using np_bcast_length [OF row] .
  have a: "length buf' = length buf" using ih by simp
  have b: "length (buf' ! j) = length (buf ! j)" if "j < length buf" for j
    using ih that lr by (cases "j = i") auto
  have c: "buf' ! j = buf ! j"
    if "j < length buf" and "\<forall>k \<in> fst ` set (kv # acts). m k \<noteq> Some j" for j
  proof -
    have "j \<noteq> i" using that(2) i(1) kv by auto
    moreover have "\<forall>k \<in> fst ` set acts. m k \<noteq> Some j" using that(2) by auto
    ultimately show ?thesis using ih that(1) by auto
  qed
  show ?case using a b c by blast
qed

lemma set_actions_append:
  "set_actions m (xs @ ys) buf = ebind (set_actions m xs buf) (set_actions m ys)"
proof (induction xs arbitrary: buf)
  case Nil
  show ?case by (simp add: ebind_def)
next
  case (Cons kv xs)
  obtain k v where kv: "kv = (k, v)" by (cases kv)
  show ?case
    unfolding kv using Cons.IH
    by (auto simp: ebind_def split: option.splits sum.splits)
qed


lemma dispatch_actionsD:
  assumes "dispatch_actions t e actions = Inr e1"
  shows "\<exists>buf a. set_actions (agent_name_mapping e) actions
                   (map (map (\<lambda>x. x * 0)) (current_actions e)) = Inr buf \<and>
           aviary e = Some a \<and>
           e1 = e\<lparr>past_actions := current_actions e, current_actions := buf,
                  aviary := Some (set_all_setpoints t buf a)\<rparr>"
  using assms
  by (auto simp: dispatch_actions_def ebind_def Let_def split: sum.splits option.splits)


text \<open>
  Claim C2, amended. The dispatch phase of \<open>step\<close> keeps the buffer of before the call
  as the past actions and zeroes the current buffer before it writes the submitted
  actions. So the slot of an agent that no key of the mapping addresses is the zero vector
  after the dispatch, whatever it held before; and submitting one more action, for key
  \<open>k\<close>, writes that agent's slot (the action itself when it has the slot's length) and
  changes no other slot of the buffer.
\<close>

theorem dispatch_zeroes_omitted:
  assumes "dispatch_actions t e actions = Inr e1"
  shows "past_actions e1 = current_actions e \<and>
         length (current_actions e1) = length (current_actions e) \<and>
         (\<forall>j < length (current_actions e).
            (\<forall>k \<in> fst ` set actions. agent_name_mapping e k \<noteq> Some j) \<longrightarrow>
              current_actions e1 ! j = replicate (length (current_actions e ! j)) 0) \<and>
         (\<forall>k v e2. dispatch_actions t e (actions @ [(k, v)]) = Inr e2 \<longrightarrow>
            (\<exists>i. agent_name_mapping e k = Some i \<and> i < length (current_actions e) \<and>
                 (length v = length (current_actions e ! i) \<longrightarrow> current_actions e2 ! i = v) \<and>
                 (\<forall>j. j \<noteq> i \<longrightarrow> current_actions e2 ! j = current_actions e1 ! j)))"
proof -
  define z where "z = map (map (\<lambda>x. x * 0)) (current_actions e)"
  from dispatch_actionsD [OF assms] obtain buf a where
    buf: "set_actions (agent_name_mapping e) actions z = Inr buf" and
    e1: "e1 = e\<lparr>past_actions := current_actions e, current_actions := buf,
                 aviary := Some (set_all_setpoints t buf a)\<rparr>"
    unfolding z_def by blast
  note fr = set_actions_frame [OF buf]
  have lz: "length z = length (current_actions e)" unfolding z_def by simp
  have zj: "z ! j = replicate (length (current_actions e ! j)) 0"
    if "j < length (current_actions e)" for j
    unfolding z_def using that by (simp add: map_replicate_const)
  have p1: "past_actions e1 = current_actions e" unfolding e1 by simp
  have p2: "length (current_actions e1) = length (current_actions e)"
    unfolding e1 using fr lz by simp
  have p3: "\<forall>j < length (current_actions e).
            (\<forall>k \<in> fst ` set actions. agent_name_mapping e k \<noteq> Some j) \<longrightarrow>
              current_actions e1 ! j = replicate (length (current_actions e ! j)) 0"
    unfolding e1 using fr lz zj by simp
  have p4: "\<exists>i. agent_name_mapping e k = Some i \<and> i < length (current_actions e) \<and>
                 (length v = length (current_actions e ! i) \<longrightarrow> current_actions e2 ! i = v) \<and>
                 (\<forall>j. j \<noteq> i \<longrightarrow> current_actions e2 ! j = current_actions e1 ! j)"
    if d2: "dispatch_actions t e (actions @ [(k, v)]) = Inr e2" for k v e2
  proof -
    from dispatch_actionsD [OF d2] obtain buf2 a2 where
      buf2: "set_actions (agent_name_mapping e) (actions @ [(k, v)]) z = Inr buf2" and
      e2: "e2 = e\<lparr>past_actions := current_actions e, current_actions := buf2,
                   aviary := Some (set_all_setpoints t buf2 a2)\<rparr>"
      unfolding z_def by blast
    from buf2 buf have "set_actions (agent_name_mapping e) [(k, v)] buf = Inr buf2"
      by (simp add: set_actions_append ebind_def)
    then obtain i row where
      i: "agent_name_mapping e k = Some i" "i < length buf" and
      row: "np_bcast (length (buf ! i)) v = Inr row" and
      b2: "buf2 = buf[i := row]"
      by (auto simp: ebind_def split: option.splits if_splits sum.splits)
    have il: "i < length (current_actions e)" using i(2) fr lz by simp
    have len: "length (buf ! i) = length (current_actions e ! i)"
      using fr il lz zj [OF il] by simp
    have w: "current_actions e2 ! i = v" if "length v = length (current_actions e ! i)"
      using that row len i(2) unfolding e2 b2 by (simp add: np_bcast_same)
    have o: "current_actions e2 ! j = current_actions e1 ! j" if "j \<noteq> i" for j
      unfolding e2 e1 b2 using that by simp
    show ?thesis using i(1) il w o by blast
  qed
  show ?thesis using p1 p2 p3 p4 by blast
qed

lemmas env_eval =
  step_def dispatch_actions_def ebind_def np_bcast_def dict_of_def Let_def

theorem dispatch_zeroes_omitted_witness:
  "dispatch_actions example_task (example_env\<lparr>current_actions := [[1, 1, 1, 1], [2, 2, 2, 2]]\<rparr>)
     [(''uav_0'', [3, 3, 3, 3])]
   = Inr (example_env\<lparr>past_actions := [[1, 1, 1, 1], [2, 2, 2, 2]],
                       current_actions := [[3, 3, 3, 3], [0, 0, 0, 0]]\<rparr>) \<and>
   agent_name_mapping example_env ''uav_0'' = Some 0 \<and>
   agent_name_mapping example_env ''uav_1'' = Some 1 \<and>
   current_actions (example_env\<lparr>past_actions := [[1, 1, 1, 1], [2, 2, 2, 2]],
                       current_actions := [[3, 3, 3, 3], [0, 0, 0, 0]]\<rparr>) ! 1 = [0, 0, 0, 0]"
proof -
  have h: "dispatch_actions example_task
             (example_env\<lparr>current_actions := [[1, 1, 1, 1], [2, 2, 2, 2]]\<rparr>)
             [(''uav_0'', [3, 3, 3, 3])]
           = Inr (example_env\<lparr>past_actions := [[1, 1, 1, 1], [2, 2, 2, 2]],
                       current_actions := [[3, 3, 3, 3], [0, 0, 0, 0]]\<rparr>)"
    by (simp add: env_eval example_env_def example_task_def)
  show ?thesis
    using h dispatch_zeroes_omitted [OF h]
    by (simp add: example_env_def dict_of_def)
qed

text \<open>
  Claim C2 as stated fails. After a first step with the actions (1, 1, 1, 1) for
  \<open>uav_0\<close> and (2, 2, 2, 2) for \<open>uav_1\<close>, the agent \<open>uav_1\<close> is live and
  its slot holds (2, 2, 2, 2); the dispatch of a second call that submits an action for
  \<open>uav_0\<close> only leaves the zero vector in the slot of \<open>uav_1\<close>.
\<close>

theorem omitted_agent_slot_zeroed:
  "map_sum id (\<lambda>r. (agents (snd r), current_actions (snd r)))
     (step example_task example_env [(''uav_0'', [1, 1, 1, 1]), (''uav_1'', [2, 2, 2, 2])])
   = Inr ([''uav_1''], [[1, 1, 1, 1], [2, 2, 2, 2]]) \<and>
   map_sum id current_actions
     (ebind (step example_task example_env [(''uav_0'', [1, 1, 1, 1]), (''uav_1'', [2, 2, 2, 2])])
        (\<lambda>r. dispatch_actions example_task (snd r) [(''uav_0'', [3, 3, 3, 3])]))
   = Inr [[3, 3, 3, 3], [0, 0, 0, 0]]"
  by (simp add: env_eval example_env_def example_task_def numeral_eq_Suc)

section \<open>Facts about the step\<close>








section \<open>The hypotheses hold on every constructed vehicle and environment\<close>

lemma set_mode_frame:
  assumes "set_mode m d = Inr d'"
  shows "state d' = state d" and "z_PIDs d' = z_PIDs d" and "ctrl_period d' = ctrl_period d"
proof -
  from assms obtain sp where
    d': "d' = d\<lparr>setpoint := sp, mode := m,
                 PIDs := map PID_reset (instantiate_PIDs m (d\<lparr>setpoint := sp, mode := m\<rparr>))\<rparr>"
    by (cases "preset_setpoint m (state d)") (auto simp: set_mode_def ebind_def Let_def)
  show "state d' = state d" "z_PIDs d' = z_PIDs d" "ctrl_period d' = ctrl_period d"
    unfolding d' by simp_all
qed

lemma reset_frame:
  assumes "reset rd d = Inr d'"
  shows "z_PIDs d' = z_PIDs d" and "ctrl_period d' = ctrl_period d"
proof -
  from assms obtain d1 where
    sm: "set_mode 0 d = Inr d1" and
    d': "d' = update_state rd
               (d1\<lparr>state := replicate 4 (replicate 3 0), setpoint := replicate 4 0\<rparr>)"
    by (cases "set_mode 0 d") (auto simp: reset_def ebind_def)
  have u: "z_PIDs (update_state rd x) = z_PIDs x" "ctrl_period (update_state rd x) = ctrl_period x"
    for x :: drone
    by (simp_all add: update_state_def split: prod.splits)
  show "z_PIDs d' = z_PIDs d" "ctrl_period d' = ctrl_period d"
    unfolding d' u using set_mode_frame [OF sm] by simp_all
qed

lemma Drone_init_state:
  assumes "Drone_init params ctrl_hz hz rd = Inr d"
  shows "state_ok (state d)" and "setpoint d = [0, 0, 0, 0]" and "list_all fresh (z_PIDs d)"
proof -
  have "\<exists>d0. reset rd d0 = Inr d \<and> list_all fresh (z_PIDs d0)"
    using assms
    by (simp add: Drone_init_def Let_def split: if_splits)
      (rule exI, erule conjI, simp add: fresh_def PID_init_def list_all_iff)
  then obtain d0 where
    r: "reset rd d0 = Inr d" and d0: "list_all fresh (z_PIDs d0)"
    by blast
  show "list_all fresh (z_PIDs d)"
    using reset_frame [OF r] d0 by simp
  show "state_ok (state d)" "setpoint d = [0, 0, 0, 0]"
    using reset_setpoint [OF r] by simp_all
qed

lemma dom_dict_of_zip:
  "length xs = length ys \<Longrightarrow> dom (dict_of (zip xs ys)) = set xs"
  by (simp add: dict_of_def dom_map_of_conv_image_fst flip: zip_rev)
    (metis length_rev map_fst_zip set_map set_rev)

lemma dom_dict_of_names:
  "dom (dict_of (zip (map f [0..<n]) [0..<n])) = f ` {0..<n}"
  by (simp add: dom_dict_of_zip)

lemma init_roster:
  assumes "MAFixedwingBaseEnv_init modes sp so assisted dome dur a agent_hz rm = Inr e"
  shows "dom (agent_name_mapping e) = set (possible_agents e)"
    and "aviary e = None"
    and "length (current_actions e) = num_possible_agents e"
    and "list_all (\<lambda>row. row = replicate (action_dim e) 0) (current_actions e)"
proof -
  have "\<exists>n. possible_agents e = map (\<lambda>r. ''uav_'' @ str_nat r) [0..<n] \<and>
          agent_name_mapping e = dict_of (zip (map (\<lambda>r. ''uav_'' @ str_nat r) [0..<n]) [0..<n])"
    using assms
    by (auto simp: MAFixedwingBaseEnv_init_def ebind_def Let_def split: sum.splits)
  then obtain n where
    p: "possible_agents e = map (\<lambda>r. ''uav_'' @ str_nat r) [0..<n]" and
    m: "agent_name_mapping e = dict_of (zip (map (\<lambda>r. ''uav_'' @ str_nat r) [0..<n]) [0..<n])"
    by blast
  show "dom (agent_name_mapping e) = set (possible_agents e)"
    unfolding p m dom_dict_of_names by simp
  show "aviary e = None" "length (current_actions e) = num_possible_agents e"
    "list_all (\<lambda>row. row = replicate (action_dim e) 0) (current_actions e)"
    using assms
    by (auto simp: MAFixedwingBaseEnv_init_def ebind_def Let_def list_all_iff
        split: sum.splits)
qed

lemma begin_reset_roster:
  assumes "dom (agent_name_mapping e) = set (possible_agents e)"
  shows "set (agents (begin_reset a e)) \<subseteq> dom (agent_name_mapping (begin_reset a e))"
    and "aviary (begin_reset a e) \<noteq> None"
  using assms by (simp_all add: begin_reset_def)

lemma substeps_frame:
  "substeps t n e r = Inr (e', r') \<Longrightarrow>
     agents e' = agents e \<and> agent_name_mapping e' = agent_name_mapping e \<and>
     aviary e' \<noteq> None \<or> n = 0 \<and> e' = e"
proof (induction n arbitrary: e r)
  case 0
  then show ?case by simp
next
  case (Suc n)
  then show ?case
    by (fastforce simp: ebind_def Let_def split: option.splits sum.splits)
qed

lemma cull_subset: "cull r ags = Inr live \<Longrightarrow> set live \<subseteq> set ags"
proof (induction ags arbitrary: live)
  case Nil
  then show ?case by simp
next
  case (Cons a ags)
  then show ?case
    by (fastforce simp: ebind_def split: option.splits if_splits sum.splits)
qed

lemma step_roster:
  assumes "step t e actions = Inr (r, e')"
    and "set (agents e) \<subseteq> dom (agent_name_mapping e)"
  shows "set (agents e') \<subseteq> set (agents e)"
    and "set (agents e') \<subseteq> dom (agent_name_mapping e')"
    and "aviary e' \<noteq> None"
proof -
  from assms(1) obtain e1 e2 live where
    d: "dispatch_actions t e actions = Inr e1" and
    s: "substeps t (nat (env_step_ratio e1)) e1
          \<lparr>observations = Map.empty,
           rewards = map_of (map (\<lambda>k. (k, 0)) (agents e1)),
           terminations = map_of (map (\<lambda>k. (k, False)) (agents e1)),
           truncations = map_of (map (\<lambda>k. (k, False)) (agents e1)),
           infos = map_of (map (\<lambda>k. (k, Map.empty)) (agents e1))\<rparr> = Inr (e2, r)" and
    c: "cull r (agents e2) = Inr live" and
    e': "e' = e2\<lparr>step_count := step_count e2 + 1, agents := live\<rparr>"
    by (auto simp: step_def ebind_def Let_def split: sum.splits prod.splits)
  from dispatch_actionsD [OF d] have e1:
    "agents e1 = agents e" "agent_name_mapping e1 = agent_name_mapping e" "aviary e1 \<noteq> None"
    by auto
  from substeps_frame [OF s] e1 have e2:
    "agents e2 = agents e" "agent_name_mapping e2 = agent_name_mapping e" "aviary e2 \<noteq> None"
    by auto
  from cull_subset [OF c] e2 have l: "set live \<subseteq> set (agents e)" by simp
  show "set (agents e') \<subseteq> set (agents e)" unfolding e' using l by simp
  show "set (agents e') \<subseteq> dom (agent_name_mapping e')"
    unfolding e' using l e2 assms(2) by auto
  show "aviary e' \<noteq> None" unfolding e' using e2 by simp
qed

end
